theory Spec2Isabelle
  imports Complex_Main "HOL-Library.Multiset"
begin

section \<open>Python values shared by the services\<close>

text \<open>
  A Python \<open>str\<close> is a sequence of Unicode code points, so it is modelled as a list
  of naturals. ASCII literals are written through \<open>str_of\<close>.
\<close>

type_synonym pystr = "nat list"

definition str_of :: "string \<Rightarrow> pystr" where
  "str_of s = map of_char s"

text \<open>The code points that \<open>str.strip()\<close> (no argument) removes: \<open>str.isspace\<close>.\<close>

definition isspace :: "nat \<Rightarrow> bool" where
  "isspace c \<longleftrightarrow>
     (9 \<le> c \<and> c \<le> 13) \<or> (28 \<le> c \<and> c \<le> 32) \<or> c = 133 \<or> c = 160 \<or> c = 5760 \<or>
     (8192 \<le> c \<and> c \<le> 8202) \<or> c = 8232 \<or> c = 8233 \<or> c = 8239 \<or> c = 8287 \<or> c = 12288"

definition strip :: "pystr \<Rightarrow> pystr" where
  "strip s = rev (dropWhile isspace (rev (dropWhile isspace s)))"

text \<open>The exceptions (all subclasses of \<open>Exception\<close>) that the modelled code can meet.\<close>

datatype exn =
    AttributeError | IndexError | KeyError | TypeError | ValueError
  | HTTPError | JSONDecodeError | DatabaseError
  | EmbeddingServiceError | VectorServiceError | OtherError

text \<open>
  The value \<open>resp.json()\<close> returns. A dict is an association list read with
  \<open>map_of\<close>. Numbers are only ever tested for truth, never computed with.
\<close>

datatype json =
    JNull | JBool bool | JNum real | JStr pystr | JArr "json list" | JObj "(pystr \<times> json) list"

text \<open>\<open>d.get(key, default)\<close>: only a dict has the method.\<close>

definition py_get :: "json \<Rightarrow> pystr \<Rightarrow> json \<Rightarrow> exn + json" where
  "py_get d key dflt =
     (case d of
        JObj kvs \<Rightarrow> (case map_of kvs key of Some v \<Rightarrow> Inr v | None \<Rightarrow> Inr dflt)
      | _ \<Rightarrow> Inl AttributeError)"

text \<open>\<open>v[0]\<close>: a list or a str is indexed, a dict is looked up at the key 0 (which a
  JSON object, keyed by strings, never has), anything else is not subscriptable.\<close>

definition py_index0 :: "json \<Rightarrow> exn + json" where
  "py_index0 v =
     (case v of
        JArr xs \<Rightarrow> (case xs of [] \<Rightarrow> Inl IndexError | x # _ \<Rightarrow> Inr x)
      | JStr s \<Rightarrow> (case s of [] \<Rightarrow> Inl IndexError | c # _ \<Rightarrow> Inr (JStr [c]))
      | JObj _ \<Rightarrow> Inl KeyError
      | _ \<Rightarrow> Inl TypeError)"

text \<open>\<open>v.strip()\<close>: only a str has the method.\<close>

definition py_strip :: "json \<Rightarrow> exn + pystr" where
  "py_strip v = (case v of JStr s \<Rightarrow> Inr (strip s) | _ \<Rightarrow> Inl AttributeError)"

text \<open>Python truth value of a JSON value (\<open>not v\<close> is its negation).\<close>

definition truthy :: "json \<Rightarrow> bool" where
  "truthy v =
     (case v of
        JNull \<Rightarrow> False | JBool b \<Rightarrow> b | JNum x \<Rightarrow> x \<noteq> 0 | JStr s \<Rightarrow> s \<noteq> []
      | JArr xs \<Rightarrow> xs \<noteq> [] | JObj kvs \<Rightarrow> kvs \<noteq> [])"

text \<open>Sequencing of steps that may raise.\<close>

definition bind_exn :: "exn + 'a \<Rightarrow> ('a \<Rightarrow> exn + 'b) \<Rightarrow> exn + 'b" where
  "bind_exn r f = (case r of Inl e \<Rightarrow> Inl e | Inr v \<Rightarrow> f v)"


section \<open>Query translator (\<open>app/services/query_translator.py\<close>)\<close>

definition CASUAL_CHAT :: pystr where
  "CASUAL_CHAT = str_of ''CASUAL_CHAT''"

text \<open>
  The translation backend is the HTTP exchange of \<open>_call_deepseek_translation\<close>
  (\<open>client.post\<close>, \<open>raise_for_status\<close>, \<open>resp.json()\<close>): for a query it either raises
  or yields the parsed body. The second component counts the calls made to it.
\<close>

type_synonym translation_backend = "pystr \<Rightarrow> exn + json"

definition extract_translation :: "json \<Rightarrow> exn + pystr" where
  "extract_translation data =
     bind_exn (py_get data (str_of ''choices'') (JArr [JObj []])) (\<lambda>choices.
     bind_exn (py_index0 choices) (\<lambda>choice.
     bind_exn (py_get choice (str_of ''message'') (JObj [])) (\<lambda>message.
     bind_exn (py_get message (str_of ''content'') (JStr [])) (\<lambda>content.
     bind_exn (py_strip content) (\<lambda>translated.
       if translated = [] then Inl ValueError else Inr translated)))))"

definition call_deepseek_translation ::
  "translation_backend \<Rightarrow> pystr \<Rightarrow> nat \<Rightarrow> (exn + pystr) \<times> nat" where
  "call_deepseek_translation backend query calls =
     (bind_exn (backend query) extract_translation, Suc calls)"

text \<open>
  \<open>translate_query\<close>: the guard, then the body of the \<open>try\<close>, whose every exception
  the handler turns into the original query.
\<close>

definition translate_query ::
  "translation_backend \<Rightarrow> pystr \<Rightarrow> nat \<Rightarrow> (exn + pystr option) \<times> nat" where
  "translate_query backend original_query calls =
     (if original_query = [] \<or> strip original_query = [] then (Inr None, calls)
      else
        (case call_deepseek_translation backend original_query calls of
           (Inr translated_query, calls') \<Rightarrow>
             if translated_query = CASUAL_CHAT then (Inr None, calls')
             else (Inr (Some translated_query), calls')
         | (Inl e, calls') \<Rightarrow> (Inr (Some original_query), calls')))"


section \<open>Configuration (\<open>app/config.py\<close>)\<close>

text \<open>The settings read from the environment are parameters of the model.\<close>

record config =
  MESSAGE_HISTORY_LIMIT :: nat
  VECTOR_SEARCH_LIMIT :: int
  VECTOR_SIMILARITY_THRESHOLD :: real

definition ERROR_MESSAGE :: pystr where
  "ERROR_MESSAGE =
     [1054, 1087, 1077, 1088, 1072, 1090, 1086, 1088, 32, 1085, 1077, 32, 1074, 32, 1089,
      1077, 1090, 1080, 44, 32, 1087, 1088, 1086, 1089, 1080, 1084, 32, 1085, 1072, 1073,
      1088, 1072, 1090, 1100, 1089, 1103, 32, 1090, 1077, 1088, 1087, 1077, 1085, 1080,
      1103]"

datatype PersonaType = BUSINESS | BELLA | BEN

fun persona_value :: "PersonaType \<Rightarrow> pystr" where
  "persona_value BUSINESS = str_of ''business''"
| "persona_value BELLA = str_of ''bella''"
| "persona_value BEN = str_of ''ben''"


section \<open>Vector search (\<open>app/services/vector_service.py\<close>)\<close>

text \<open>
  Distances and similarities are Python floats; they are modelled as reals, so rounding
  is left out.
\<close>

text \<open>The conversion of a distance into a similarity, inlined in \<open>search_similar\<close>.\<close>

definition distance_to_similarity :: "real \<Rightarrow> real" where
  "distance_to_similarity distance =
     (if distance \<le> 1 then 1 - distance
      else if distance \<le> 2 then 1 - distance / 2
      else max 0 (1 / (1 + distance)))"

type_synonym metadata = "(pystr \<times> pystr) list"

record search_result =
  doc_content :: pystr
  similarity :: real
  distance :: real
  metadata :: metadata

text \<open>What \<open>collection.query\<close> returns under the three keys that are read.\<close>

record query_result =
  documents :: "pystr list list option"
  metadatas :: "metadata list list option"
  distances :: "real list list option"

text \<open>
  The loop over \<open>enumerate(documents)\<close>: a missing distance counts as 1.0, a missing
  metadata as the empty dict, and a result under the threshold is skipped.
\<close>

fun collect_results ::
  "metadata list \<Rightarrow> real list \<Rightarrow> real \<Rightarrow> nat \<Rightarrow> pystr list \<Rightarrow> search_result list" where
  "collect_results mds dists similarity_threshold i [] = []"
| "collect_results mds dists similarity_threshold i (document # rest) =
     (let d = (if i < length dists then dists ! i else 1);
          s = distance_to_similarity d
      in if s < similarity_threshold
         then collect_results mds dists similarity_threshold (Suc i) rest
         else \<lparr>doc_content = document, similarity = s, distance = d,
               metadata = (if i < length mds then mds ! i else [])\<rparr>
              # collect_results mds dists similarity_threshold (Suc i) rest)"

text \<open>
  \<open>results.sort(key=lambda x: x["similarity"], reverse=True)\<close>: Python's sort is stable,
  also with \<open>reverse=True\<close>; that is the insertion sort on the negated key.
\<close>

definition sort_by_similarity_desc :: "search_result list \<Rightarrow> search_result list" where
  "sort_by_similarity_desc results = sort_key (\<lambda>r. - similarity r) results"

definition process_search_results :: "query_result \<Rightarrow> real \<Rightarrow> search_result list" where
  "process_search_results sr similarity_threshold =
     sort_by_similarity_desc
       (case documents sr of
          Some (docs # _) \<Rightarrow>
            if docs = [] then []
            else
              collect_results
                (case metadatas sr of Some (m # _) \<Rightarrow> m | _ \<Rightarrow> [])
                (case distances sr of Some (d # _) \<Rightarrow> d | _ \<Rightarrow> [])
                similarity_threshold 0 docs
        | _ \<Rightarrow> [])"

text \<open>The collaborators of \<open>search_similar\<close>: the Chroma client and the embedding service.\<close>

record vector_index =
  initialize_client :: "exn option"
  collection_count :: "exn + nat"
  create_embedding :: "pystr \<Rightarrow> exn + real list"
  collection_query :: "real list \<Rightarrow> int \<Rightarrow> exn + query_result"

text \<open>\<open>limit or config.VECTOR_SEARCH_LIMIT\<close>: \<open>None\<close> and 0 are both falsy.\<close>

definition limit_or_default :: "config \<Rightarrow> int option \<Rightarrow> int" where
  "limit_or_default cfg limit =
     (case limit of None \<Rightarrow> VECTOR_SEARCH_LIMIT cfg
      | Some l \<Rightarrow> if l = 0 then VECTOR_SEARCH_LIMIT cfg else l)"

text \<open>\<open>threshold or config.VECTOR_SIMILARITY_THRESHOLD\<close>: \<open>None\<close> and 0.0 are both falsy.\<close>

definition threshold_or_default :: "config \<Rightarrow> real option \<Rightarrow> real" where
  "threshold_or_default cfg threshold =
     (case threshold of None \<Rightarrow> VECTOR_SIMILARITY_THRESHOLD cfg
      | Some t \<Rightarrow> if t = 0 then VECTOR_SIMILARITY_THRESHOLD cfg else t)"

definition search_similar_body ::
  "config \<Rightarrow> vector_index \<Rightarrow> pystr \<Rightarrow> int option \<Rightarrow> real option \<Rightarrow> exn + search_result list" where
  "search_similar_body cfg idx query limit threshold =
     (case initialize_client idx of
        Some e \<Rightarrow> Inl e
      | None \<Rightarrow>
          if strip query = [] then Inr []
          else
            let search_limit = limit_or_default cfg limit;
                similarity_threshold = threshold_or_default cfg threshold
            in bind_exn (collection_count idx) (\<lambda>n.
                 if n = 0 then Inr []
                 else
                   bind_exn (create_embedding idx query) (\<lambda>query_embedding.
                   bind_exn (collection_query idx query_embedding search_limit) (\<lambda>sr.
                     Inr (process_search_results sr similarity_threshold)))))"

text \<open>Both handlers of \<open>search_similar\<close> re-raise as \<open>VectorServiceError\<close>.\<close>

definition search_similar ::
  "config \<Rightarrow> vector_index \<Rightarrow> pystr \<Rightarrow> int option \<Rightarrow> real option \<Rightarrow> exn + search_result list" where
  "search_similar cfg idx query limit threshold =
     (case search_similar_body cfg idx query limit threshold of
        Inl e \<Rightarrow> Inl VectorServiceError
      | Inr results \<Rightarrow> Inr results)"


section \<open>Data model (\<open>app/models.py\<close>)\<close>

datatype MessageRole = USER | ASSISTANT | SYSTEM

fun role_value :: "MessageRole \<Rightarrow> pystr" where
  "role_value USER = str_of ''user''"
| "role_value ASSISTANT = str_of ''assistant''"
| "role_value SYSTEM = str_of ''system''"

text \<open>
  \<open>Message\<close>. Times are integers on one clock, so that the order of the stored
  \<open>created_at\<close> values is the order of the times they stand for.
\<close>

record message =
  msg_id :: "nat option"
  chat_id :: int
  user_id :: "int option"
  message_id :: "int option"
  role :: MessageRole
  content :: pystr
  persona_type :: PersonaType
  created_at :: int

text \<open>The dict \<open>{"role": ..., "content": ...}\<close> sent to the chat API.\<close>

record api_message =
  api_role :: pystr
  api_content :: pystr

definition to_dict :: "message \<Rightarrow> api_message" where
  "to_dict m = \<lparr>api_role = role_value (role m), api_content = content m\<rparr>"

record chat_state =
  state_chat_id :: int
  current_persona :: PersonaType
  message_count :: int
  last_activity :: int

definition create_default :: "int \<Rightarrow> int \<Rightarrow> chat_state" where
  "create_default cid now =
     \<lparr>state_chat_id = cid, current_persona = BUSINESS, message_count = 0, last_activity = now\<rparr>"


section \<open>Prompt service (\<open>app/services/prompt_service.py\<close>)\<close>

text \<open>\<open>old in s\<close> for strings.\<close>

fun contains :: "pystr \<Rightarrow> pystr \<Rightarrow> bool" where
  "contains old [] = (old = [])"
| "contains old (c # cs) = (take (length old) (c # cs) = old \<or> contains old cs)"

text \<open>
  \<open>s.replace(old, new)\<close> for a non-empty \<open>old\<close>, which is how the service calls it:
  every occurrence, left to right, without overlap. (With an empty \<open>old\<close> the string is
  returned as it is; the service never does that.)
\<close>

function replace :: "pystr \<Rightarrow> pystr \<Rightarrow> pystr \<Rightarrow> pystr" where
  "replace old new s =
     (if old = [] \<or> s = [] then s
      else if take (length old) s = old then new @ replace old new (drop (length old) s)
      else hd s # replace old new (tl s))"
  by pat_completeness auto
termination
  by (relation "measure (\<lambda>(old, new, s). length s)") (auto simp: Suc_le_eq)

text \<open>
  The two files the service reads, as what \<open>_load_prompt_from_file\<close> and
  \<open>_load_promotions_text\<close> return (both catch every exception and return \<open>None\<close>).
\<close>

record prompt_files =
  load_prompt_from_file :: "PersonaType \<Rightarrow> pystr option"
  load_promotions_text :: "pystr option"

fun get_default_prompt :: "PersonaType \<Rightarrow> pystr" where
  "get_default_prompt BUSINESS =
     [1058, 1099, 32, 45, 32, 1087, 1088, 1086, 1092, 1077, 1089, 1089, 1080, 1086, 1085,
      1072, 1083, 1100, 1085, 1099, 1081, 32, 1082, 1086, 1085, 1089, 1091, 1083, 1100,
      1090, 1072, 1085, 1090, 32, 1090, 1077, 1093, 1085, 1080, 1095, 1077, 1089, 1082,
      1086, 1081, 32, 1087, 1086, 1076, 1076, 1077, 1088, 1078, 1082, 1080, 32, 1086, 1085,
      1083, 1072, 1081, 1085, 32, 1082, 1072, 1079, 1080, 1085, 1086, 46, 32, 1054, 1090,
      1074, 1077, 1095, 1072, 1081, 32, 1074, 32, 1076, 1077, 1083, 1086, 1074, 1086, 1084,
      32, 1089, 1090, 1080, 1083, 1077, 44, 32, 1073, 1091, 1076, 1100, 32, 1074, 1077,
      1078, 1083, 1080, 1074, 1099, 1084, 32, 1080, 32, 1080, 1085, 1092, 1086, 1088, 1084,
      1072, 1090, 1080, 1074, 1085, 1099, 1084, 46, 32, 1053, 1045, 32, 1074, 1099, 1076,
      1072, 1074, 1072, 1081, 32, 1089, 1077, 1073, 1103, 32, 1079, 1072, 32, 1073, 1086,
      1090, 1072, 32, 1080, 1083, 1080, 32, 1080, 1089, 1082, 1091, 1089, 1089, 1090, 1074,
      1077, 1085, 1085, 1099, 1081, 32, 1080, 1085, 1090, 1077, 1083, 1083, 1077, 1082,
      1090, 46]"
| "get_default_prompt BELLA =
     [1055, 1088, 1080, 1074, 1077, 1090, 33, 32, 1071, 32, 1041, 1077, 1083, 1083, 1072,
      44, 32, 1090, 1074, 1086, 1103, 32, 1087, 1086, 1084, 1086, 1097, 1085, 1080, 1094,
      1072, 32, 1074, 32, 1082, 1072, 1079, 1080, 1085, 1086, 33, 32, 128522, 32, 1054,
      1073, 1097, 1072, 1102, 1089, 1100, 32, 1076, 1088, 1091, 1078, 1077, 1083, 1102,
      1073, 1085, 1086, 32, 1089, 32, 1083, 1077, 1075, 1082, 1080, 1084, 32, 1092, 1083,
      1080, 1088, 1090, 1086, 1084, 44, 32, 1085, 1086, 32, 1086, 1089, 1090, 1072, 1102,
      1089, 1100, 32, 1087, 1088, 1086, 1092, 1077, 1089, 1089, 1080, 1086, 1085, 1072,
      1083, 1100, 1085, 1086, 1081, 46, 32, 1053, 1045, 32, 1074, 1099, 1076, 1072, 1102,
      32, 1089, 1077, 1073, 1103, 32, 1079, 1072, 32, 1073, 1086, 1090, 1072, 32, 1080,
      1083, 1080, 32, 1080, 1089, 1082, 1091, 1089, 1089, 1090, 1074, 1077, 1085, 1085,
      1099, 1081, 32, 1080, 1085, 1090, 1077, 1083, 1083, 1077, 1082, 1090, 46]"
| "get_default_prompt BEN =
     [1055, 1088, 1080, 1074, 1077, 1090, 33, 32, 1071, 32, 1041, 1101, 1085, 44, 32, 1090,
      1074, 1086, 1081, 32, 1085, 1072, 1076, 1077, 1078, 1085, 1099, 1081, 32, 1087, 1072,
      1088, 1090, 1085, 1077, 1088, 32, 1074, 32, 1082, 1072, 1079, 1080, 1085, 1086, 33,
      32, 127919, 32, 1054, 1073, 1097, 1072, 1102, 1089, 1100, 32, 1091, 1074, 1077, 1088,
      1077, 1085, 1085, 1086, 32, 1080, 32, 1087, 1086, 45, 1076, 1088, 1091, 1078, 1077,
      1089, 1082, 1080, 44, 32, 1087, 1086, 1084, 1086, 1075, 1072, 1102, 32, 1088, 1077,
      1096, 1072, 1090, 1100, 32, 1083, 1102, 1073, 1099, 1077, 32, 1074, 1086, 1087, 1088,
      1086, 1089, 1099, 46, 32, 1053, 1045, 32, 1074, 1099, 1076, 1072, 1102, 32, 1089,
      1077, 1073, 1103, 32, 1079, 1072, 32, 1073, 1086, 1090, 1072, 32, 1080, 1083, 1080,
      32, 1080, 1089, 1082, 1091, 1089, 1089, 1090, 1074, 1077, 1085, 1085, 1099, 1081, 32,
      1080, 1085, 1090, 1077, 1083, 1083, 1077, 1082, 1090, 46]"

text \<open>The filler used when no promotions text is available.\<close>

definition promotions_unavailable :: pystr where
  "promotions_unavailable =
     [1040, 1082, 1090, 1091, 1072, 1083, 1100, 1085, 1099, 1077, 32, 1087, 1088, 1086,
      1084, 1086, 1072, 1082, 1094, 1080, 1080, 32, 1074, 1088, 1077, 1084, 1077, 1085,
      1085, 1086, 32, 1085, 1077, 1076, 1086, 1089, 1090, 1091, 1087, 1085, 1099, 46]"

text \<open>The heading of the context section, between two newlines and one.\<close>

definition context_heading :: pystr where
  "context_heading =
     [10, 10, 1044, 1054, 1055, 1054, 1051, 1053, 1048, 1058, 1045, 1051, 1068, 1053, 1067,
      1049, 32, 1050, 1054, 1053, 1058, 1045, 1050, 1057, 1058, 58, 10]"

definition get_system_prompt ::
  "prompt_files \<Rightarrow> PersonaType \<Rightarrow> pystr option \<Rightarrow> pystr option \<Rightarrow> pystr" where
  "get_system_prompt files persona promotions_info context_info =
     (let prompt_template =
            (case load_prompt_from_file files persona of
               None \<Rightarrow> get_default_prompt persona
             | Some t \<Rightarrow> if t = [] then get_default_prompt persona else t);
          with_promotions =
            (if contains (str_of ''{promotions}'') prompt_template then
               let info = (case promotions_info of
                             None \<Rightarrow> load_promotions_text files | Some p \<Rightarrow> Some p);
                   promotions_text =
                     (case info of
                        None \<Rightarrow> promotions_unavailable
                      | Some p \<Rightarrow> if p = [] then promotions_unavailable else p)
               in replace (str_of ''{promotions}'') promotions_text prompt_template
             else prompt_template)
      in if contains (str_of ''{context}'') with_promotions then
           let context_text = (case context_info of None \<Rightarrow> [] | Some c \<Rightarrow> c);
               context_section =
                 (if context_text \<noteq> [] then context_heading @ context_text @ [10] else [])
           in replace (str_of ''{context}'') context_section with_promotions
         else with_promotions)"


section \<open>Context builder (\<open>app/services/context_builder.py\<close>)\<close>

definition system_prompt_threshold :: nat where
  "system_prompt_threshold = 5"

text \<open>The fallback prompt \<open>f"... {persona.value}. ..."\<close> of the handler.\<close>

definition fallback_prompt :: "PersonaType \<Rightarrow> pystr" where
  "fallback_prompt persona =
     [1058, 1099, 32, 1082, 1086, 1085, 1089, 1091, 1083, 1100, 1090, 1072, 1085, 1090, 32,
      1082, 1072, 1079, 1080, 1085, 1086, 32, 1074, 32, 1088, 1077, 1078, 1080, 1084, 1077,
      32]
     @ persona_value persona @
     [46, 32, 1054, 1090, 1074, 1077, 1095, 1072, 1081, 32, 1087, 1088, 1086, 1092, 1077,
      1089, 1089, 1080, 1086, 1085, 1072, 1083, 1100, 1085, 1086, 46]"

text \<open>
  The prompt service is the builder's collaborator (a module-level object); it is a
  parameter here, so that a resolution that raises can be modelled.
\<close>

type_synonym prompt_service = "PersonaType \<Rightarrow> pystr option \<Rightarrow> pystr option \<Rightarrow> exn + pystr"

definition build_context_for_ai ::
  "prompt_service \<Rightarrow> message list \<Rightarrow> PersonaType \<Rightarrow> pystr \<Rightarrow> pystr option \<Rightarrow> pystr option
     \<Rightarrow> exn + api_message list" where
  "build_context_for_ai service msgs persona current_message_content promotions_info
       vector_context =
     (case service persona promotions_info vector_context of
        Inr system_prompt \<Rightarrow>
          let system_message = \<lparr>api_role = str_of ''system'', api_content = system_prompt\<rparr>;
              history_messages = filter (\<lambda>m. role m = USER \<or> role m = ASSISTANT) msgs;
              context_messages = [system_message] @ map to_dict history_messages;
              context_messages =
                (if length history_messages > system_prompt_threshold
                 then context_messages @ [system_message] else context_messages)
          in Inr (context_messages @
                  [\<lparr>api_role = str_of ''user'', api_content = current_message_content\<rparr>])
      | Inl e \<Rightarrow>
          Inr [\<lparr>api_role = str_of ''system'', api_content = fallback_prompt persona\<rparr>,
               \<lparr>api_role = str_of ''user'', api_content = current_message_content\<rparr>])"

text \<open>The prompt service of the repository, which returns normally on every input.\<close>

definition file_prompt_service :: "prompt_files \<Rightarrow> prompt_service" where
  "file_prompt_service files persona promotions_info context_info =
     Inr (get_system_prompt files persona promotions_info context_info)"


section \<open>Generation (\<open>app/services/ai_service.py\<close>)\<close>

text \<open>
  What \<open>generate_response\<close> calls: the history read
  \<open>db_manager.get_chat_history(chat_id, limit=20, hours_back=1)\<close>, the translation
  backend, the vector index, the prompt service, the chat completion exchange
  (\<open>client.post\<close>, \<open>raise_for_status\<close>, \<open>resp.json()\<close>) and the float formatting
  \<open>{similarity:.2f}\<close>.
  The audit writes are left out: \<open>_append_audit_log\<close> catches every exception, the
  lines it is given are built from strings only (the JSON dump has its own handler),
  and nothing that is returned depends on them.
\<close>

record generation_env =
  recent_history :: "int \<Rightarrow> exn + message list"
  translation :: translation_backend
  index :: vector_index
  prompts :: prompt_service
  chat_completion :: "api_message list \<Rightarrow> exn + json"
  format_2f :: "real \<Rightarrow> pystr"

text \<open>\<open>sep.join(parts)\<close>.\<close>

fun join :: "pystr \<Rightarrow> pystr list \<Rightarrow> pystr" where
  "join sep [] = []"
| "join sep [x] = x"
| "join sep (x # y # ys) = x @ sep @ join sep (y # ys)"

text \<open>\<open>f"[... {similarity:.2f}] {content}"\<close>.\<close>

definition context_part :: "(real \<Rightarrow> pystr) \<Rightarrow> search_result \<Rightarrow> pystr" where
  "context_part fmt r =
     [91, 1056, 1077, 1083, 1077, 1074, 1072, 1085, 1090, 1085, 1086, 1089, 1090, 1100, 58,
      32]
     @ fmt (similarity r) @ str_of ''] '' @ doc_content r"

definition get_vector_context_body ::
  "config \<Rightarrow> generation_env \<Rightarrow> pystr \<Rightarrow> exn + pystr option" where
  "get_vector_context_body cfg env query =
     bind_exn (fst (translate_query (translation env) query 0)) (\<lambda>translated_query.
       case translated_query of
         None \<Rightarrow> Inr None
       | Some q \<Rightarrow>
           bind_exn (search_similar cfg (index env) q None None) (\<lambda>search_results.
             if search_results = [] then Inr None
             else
               let context_parts =
                     map (context_part (format_2f env))
                       (filter (\<lambda>r. doc_content r \<noteq> []) search_results)
               in Inr (if context_parts \<noteq> []
                       then Some (join [10, 10] context_parts) else None)))"

text \<open>The handler of \<open>_get_vector_context\<close> returns \<open>None\<close> for every exception.\<close>

definition get_vector_context :: "config \<Rightarrow> generation_env \<Rightarrow> pystr \<Rightarrow> pystr option" where
  "get_vector_context cfg env query =
     (case get_vector_context_body cfg env query of Inl e \<Rightarrow> None | Inr c \<Rightarrow> c)"

text \<open>The reading of the reply: \<open>.get("content")\<close> has no default, and any falsy value
  raises \<open>ValueError\<close>.\<close>

definition extract_response :: "json \<Rightarrow> exn + json" where
  "extract_response data =
     bind_exn (py_get data (str_of ''choices'') (JArr [JObj []])) (\<lambda>choices.
     bind_exn (py_index0 choices) (\<lambda>choice.
     bind_exn (py_get choice (str_of ''message'') (JObj [])) (\<lambda>msg.
     bind_exn (py_get msg (str_of ''content'') JNull) (\<lambda>response_text.
       if \<not> truthy response_text then Inl ValueError else Inr response_text))))"

definition generate_response_body ::
  "config \<Rightarrow> generation_env \<Rightarrow> int \<Rightarrow> pystr \<Rightarrow> PersonaType \<Rightarrow> pystr option \<Rightarrow> exn + json" where
  "generate_response_body cfg env cid current_message persona promotions_info =
     bind_exn (recent_history env cid) (\<lambda>msgs.
       let vector_context = get_vector_context cfg env current_message
       in bind_exn
            (build_context_for_ai (prompts env) msgs persona current_message promotions_info
               vector_context) (\<lambda>context_messages.
          bind_exn (chat_completion env context_messages) extract_response))"

text \<open>The handler of \<open>generate_response\<close> returns \<open>config.ERROR_MESSAGE\<close>.\<close>

definition generate_response ::
  "config \<Rightarrow> generation_env \<Rightarrow> int \<Rightarrow> pystr \<Rightarrow> PersonaType \<Rightarrow> pystr option \<Rightarrow> exn + json" where
  "generate_response cfg env cid current_message persona promotions_info =
     (case generate_response_body cfg env cid current_message persona promotions_info of
        Inl e \<Rightarrow> Inr (JStr ERROR_MESSAGE)
      | Inr response_text \<Rightarrow> Inr response_text)"


section \<open>Database layer (\<open>app/database.py\<close>)\<close>

text \<open>
  The two tables: the rows of \<open>messages\<close> in insertion order, \<open>chat_states\<close> by its
  primary key, and the AUTOINCREMENT counter. Every operation runs in one transaction
  that is taken to commit; a failing connection is outside the model.
\<close>

record database =
  message_rows :: "message list"
  chat_state_rows :: "int \<Rightarrow> chat_state option"
  last_rowid :: nat

definition empty_database :: database where
  "empty_database = \<lparr>message_rows = [], chat_state_rows = (\<lambda>_. None), last_rowid = 0\<rparr>"

text \<open>
  \<open>ORDER BY created_at DESC\<close> names no second key, so the order of rows with equal
  \<open>created_at\<close> is the engine's. The engine's ordering is a parameter; what the query
  asks of it is \<open>orders_by_created_at_desc\<close>.
\<close>

type_synonym row_order = "message list \<Rightarrow> message list"

definition orders_by_created_at_desc :: "row_order \<Rightarrow> bool" where
  "orders_by_created_at_desc ord \<longleftrightarrow>
     (\<forall>rs. mset (ord rs) = mset rs \<and> sorted (map (\<lambda>m. - created_at m) (ord rs)))"

text \<open>
  On the schema of \<open>_init_database\<close> the query is answered from the index
  \<open>idx_messages_chat_created\<close> on \<open>(chat_id, created_at)\<close>, whose entries end in the
  rowid, read backward: rows of equal \<open>created_at\<close> come with the newest id first. The
  rows are given in insertion order, so that is the stable sort of their reverse.
\<close>

definition ties_newest_first :: row_order where
  "ties_newest_first rs = sort_key (\<lambda>m. - created_at m) (rev rs)"

definition in_chat :: "int \<Rightarrow> message \<Rightarrow> bool" where
  "in_chat cid m \<longleftrightarrow> chat_id m = cid"

definition update_message_count :: "int \<Rightarrow> database \<Rightarrow> int \<Rightarrow> database" where
  "update_message_count now db cid =
     db\<lparr>chat_state_rows := (chat_state_rows db)(cid \<mapsto>
          \<lparr>state_chat_id = cid,
           current_persona =
             (case chat_state_rows db cid of
                Some st \<Rightarrow> current_persona st | None \<Rightarrow> BUSINESS),
           message_count = int (length (filter (in_chat cid) (message_rows db))),
           last_activity = now\<rparr>)\<rparr>"

definition cleanup_old_messages :: "row_order \<Rightarrow> config \<Rightarrow> database \<Rightarrow> int \<Rightarrow> database" where
  "cleanup_old_messages ord cfg db cid =
     (let keep = map msg_id
                   (take (MESSAGE_HISTORY_LIMIT cfg)
                      (ord (filter (in_chat cid) (message_rows db))))
      in db\<lparr>message_rows :=
               filter (\<lambda>m. \<not> (in_chat cid m \<and> msg_id m \<notin> set keep)) (message_rows db)\<rparr>)"

definition save_message ::
  "row_order \<Rightarrow> config \<Rightarrow> int \<Rightarrow> database \<Rightarrow> message \<Rightarrow> nat \<times> database" where
  "save_message ord cfg now db m =
     (let new_id = Suc (last_rowid db);
          db1 = db\<lparr>message_rows := message_rows db @ [m\<lparr>msg_id := Some new_id\<rparr>],
                   last_rowid := new_id\<rparr>;
          db2 = update_message_count now db1 (chat_id m);
          db3 = cleanup_old_messages ord cfg db2 (chat_id m)
      in (new_id, db3))"

definition clear_chat_history :: "int \<Rightarrow> database \<Rightarrow> int \<Rightarrow> nat \<times> database" where
  "clear_chat_history now db cid =
     (let deleted_count = length (filter (in_chat cid) (message_rows db));
          db1 = db\<lparr>message_rows := filter (\<lambda>m. \<not> in_chat cid m) (message_rows db)\<rparr>;
          db2 = (case chat_state_rows db1 cid of
                   None \<Rightarrow> db1
                 | Some st \<Rightarrow>
                     db1\<lparr>chat_state_rows := (chat_state_rows db1)(cid \<mapsto>
                           st\<lparr>message_count := 0, last_activity := now\<rparr>)\<rparr>)
      in (deleted_count, db2))"

definition save_chat_state :: "database \<Rightarrow> chat_state \<Rightarrow> database" where
  "save_chat_state db st =
     db\<lparr>chat_state_rows := (chat_state_rows db)(state_chat_id st \<mapsto> st)\<rparr>"

definition get_chat_state :: "int \<Rightarrow> database \<Rightarrow> int \<Rightarrow> chat_state \<times> database" where
  "get_chat_state now db cid =
     (case chat_state_rows db cid of
        Some row \<Rightarrow> (row, db)
      | None \<Rightarrow> (let st = create_default cid now in (st, save_chat_state db st)))"

definition update_chat_persona :: "int \<Rightarrow> database \<Rightarrow> int \<Rightarrow> PersonaType \<Rightarrow> database" where
  "update_chat_persona now db cid persona =
     db\<lparr>chat_state_rows := (chat_state_rows db)(cid \<mapsto>
          \<lparr>state_chat_id = cid, current_persona = persona,
           message_count =
             (case chat_state_rows db cid of Some st \<Rightarrow> message_count st | None \<Rightarrow> 0),
           last_activity = now\<rparr>)\<rparr>"

text \<open>A sequence of \<open>save_message\<close> calls, each with the clock reading of its call.\<close>

fun save_messages ::
  "row_order \<Rightarrow> config \<Rightarrow> database \<Rightarrow> (int \<times> message) list \<Rightarrow> database" where
  "save_messages ord cfg db [] = db"
| "save_messages ord cfg db ((now, m) # rest) =
     save_messages ord cfg (snd (save_message ord cfg now db m)) rest"

text \<open>
  What the schema and the AUTOINCREMENT counter maintain of the table: every row has
  an id, the ids are distinct, and none exceeds the counter.
\<close>

definition rows_well_formed :: "database \<Rightarrow> bool" where
  "rows_well_formed db \<longleftrightarrow>
     distinct (map msg_id (message_rows db)) \<and>
     (\<forall>m \<in> set (message_rows db). \<exists>i. msg_id m = Some i \<and> i \<le> last_rowid db)"


text \<open>The id of a stored row, and the rows of the table in the order of their ids.\<close>

definition row_id :: "message \<Rightarrow> nat" where
  "row_id m = (case msg_id m of Some i \<Rightarrow> i | None \<Rightarrow> 0)"

definition rows_in_id_order :: "database \<Rightarrow> bool" where
  "rows_in_id_order db \<longleftrightarrow> sorted_wrt (\<lambda>a b. row_id a < row_id b) (message_rows db)"

text \<open>Recency: by creation time, and by insertion id among equal creation times.\<close>

definition more_recent :: "message \<Rightarrow> message \<Rightarrow> bool" where
  "more_recent a b \<longleftrightarrow>
     created_at b < created_at a \<or> (created_at a = created_at b \<and> row_id b < row_id a)"


text \<open>The database after the INSERT and the counter update of \<open>save_message\<close>.\<close>

definition inserted :: "int \<Rightarrow> database \<Rightarrow> message \<Rightarrow> database" where
  "inserted now db m =
     update_message_count now
       (db\<lparr>message_rows := message_rows db @ [m\<lparr>msg_id := Some (Suc (last_rowid db))\<rparr>],
           last_rowid := Suc (last_rowid db)\<rparr>) (chat_id m)"

text \<open>
  The states that writes lead to: well-formed rows and no chat over the history limit.
\<close>

definition retention_invariant :: "config \<Rightarrow> database \<Rightarrow> bool" where
  "retention_invariant cfg db \<longleftrightarrow>
     rows_well_formed db \<and>
     (\<forall>c. length (filter (in_chat c) (message_rows db)) \<le> MESSAGE_HISTORY_LIMIT cfg)"


section \<open>Example inputs\<close>

definition example_config :: config where
  "example_config =
     \<lparr>MESSAGE_HISTORY_LIMIT = 2, VECTOR_SEARCH_LIMIT = 8, VECTOR_SIMILARITY_THRESHOLD = 7 / 10\<rparr>"

text \<open>An index with one document that answers every query with \<open>answer\<close>.\<close>

definition example_index :: "exn + query_result \<Rightarrow> vector_index" where
  "example_index answer =
     \<lparr>initialize_client = None, collection_count = Inr 1,
      create_embedding = (\<lambda>_. Inr []), collection_query = (\<lambda>_ _. answer)\<rparr>"

definition example_answer :: query_result where
  "example_answer =
     \<lparr>documents = Some [[str_of ''far'', str_of ''near'']], metadatas = None,
      distances = Some [[1 / 2, 1 / 10]]\<rparr>"

text \<open>An index whose client cannot be initialised.\<close>

definition broken_index :: vector_index where
  "broken_index =
     \<lparr>initialize_client = Some OtherError, collection_count = Inr 0,
      create_embedding = (\<lambda>_. Inl EmbeddingServiceError),
      collection_query = (\<lambda>_ _. Inl OtherError)\<rparr>"

text \<open>The body \<open>{"choices": [{"message": {"content": text}}]}\<close>.\<close>

definition chat_reply :: "pystr \<Rightarrow> json" where
  "chat_reply text =
     JObj [(str_of ''choices'',
            JArr [JObj [(str_of ''message'', JObj [(str_of ''content'', JStr text)])]])]"

definition example_env ::
  "(int \<Rightarrow> exn + message list) \<Rightarrow> (api_message list \<Rightarrow> exn + json) \<Rightarrow> generation_env" where
  "example_env history completion =
     \<lparr>recent_history = history,
      translation = (\<lambda>_. Inr (chat_reply (str_of ''how to register account''))),
      index = broken_index,
      prompts = (\<lambda>_ _ _. Inr (str_of ''prompt'')),
      chat_completion = completion,
      format_2f = (\<lambda>_. str_of ''0.00'')\<rparr>"

definition example_message :: "int \<Rightarrow> MessageRole \<Rightarrow> int \<Rightarrow> message" where
  "example_message cid r t =
     \<lparr>msg_id = None, chat_id = cid, user_id = None, message_id = None, role = r,
      content = str_of ''text'', persona_type = BUSINESS, created_at = t\<rparr>"

text \<open>Three writes to chat 7 of an empty database, with a history limit of 2.\<close>

definition three_saves :: database where
  "three_saves =
     save_messages ties_newest_first example_config empty_database
       [(1, example_message 7 USER 1), (2, example_message 7 ASSISTANT 2),
        (3, example_message 7 USER 3)]"

definition bella_chat :: database where
  "bella_chat = update_chat_persona 4 three_saves 7 BELLA"

text \<open>Two writes with the same \<open>created_at\<close>, with a history limit of 1.\<close>

definition tied_saves :: database where
  "tied_saves =
     save_messages ties_newest_first (example_config\<lparr>MESSAGE_HISTORY_LIMIT := 1\<rparr>)
       empty_database [(1, example_message 7 USER 5), (2, example_message 7 ASSISTANT 5)]"

definition long_history :: "message list" where
  "long_history =
     [example_message 7 USER 1, example_message 7 ASSISTANT 2, example_message 7 SYSTEM 3,
      example_message 7 USER 4, example_message 7 ASSISTANT 5, example_message 7 USER 6,
      example_message 7 ASSISTANT 7]"

definition no_files :: prompt_files where
  "no_files = \<lparr>load_prompt_from_file = (\<lambda>_. None), load_promotions_text = None\<rparr>"


section \<open>Properties of the query translator\<close>

lemma strip_empty_iff: "strip s = [] \<longleftrightarrow> (\<forall>c \<in> set s. isspace c)"
proof -
  have "(\<forall>x \<in> set (dropWhile isspace s). isspace x) \<longleftrightarrow> dropWhile isspace s = []"
  proof
    assume a: "\<forall>x \<in> set (dropWhile isspace s). isspace x"
    show "dropWhile isspace s = []"
    proof (rule ccontr)
      assume n: "dropWhile isspace s \<noteq> []"
      then have "\<not> isspace (hd (dropWhile isspace s))" by (rule hd_dropWhile)
      moreover from n have "hd (dropWhile isspace s) \<in> set (dropWhile isspace s)" by simp
      ultimately show False using a by blast
    qed
  qed (auto dest: set_dropWhileD)
  then show ?thesis
    by (simp add: strip_def dropWhile_eq_Nil_conv)
qed

lemma strip_nonempty_imp: "strip s \<noteq> [] \<Longrightarrow> s \<noteq> []"
  by (auto simp: strip_def)

text \<open>
  C9: for every input that is empty or consists only of whitespace,
  \<open>translate_query\<close> returns \<open>None\<close> and the count of backend
  calls is unchanged: no call is made.
\<close>

theorem translate_query_blank:
  "\<forall>c \<in> set q. isspace c \<Longrightarrow> translate_query backend q calls = (Inr None, calls)"
  by (simp add: translate_query_def strip_empty_iff)

theorem translate_query_blank_witness:
  "list_all isspace (str_of ''   '') \<and>
   translate_query (\<lambda>_. Inl HTTPError) (str_of ''   '') 0 = (Inr None, 0) \<and>
   translate_query (\<lambda>_. Inl HTTPError) [] 0 = (Inr None, 0)"
  using translate_query_blank [of "str_of ''   ''" "\<lambda>_. Inl HTTPError" 0]
        translate_query_blank [of "[]" "\<lambda>_. Inl HTTPError" 0]
  by (simp add: str_of_def isspace_def)

lemma translate_query_calls:
  "snd (translate_query backend q calls) = (if strip q = [] then calls else Suc calls)"
  by (auto simp: translate_query_def call_deepseek_translation_def strip_def split: sum.splits prod.splits)

lemma translate_query_fail_open_strong:
  "strip q \<noteq> [] \<Longrightarrow> fst (call_deepseek_translation backend q calls) = Inl e \<Longrightarrow>
   translate_query backend q calls = (Inr (Some q), Suc calls)"
  by (auto simp: translate_query_def call_deepseek_translation_def strip_def split: sum.splits prod.splits)

text \<open>
  C6: for a non-empty query, when \<open>translate_query\<close> makes the backend call
  and \<open>_call_deepseek_translation\<close> raises (the exchange fails, the body is
  malformed, or the content is empty), the result is the original query, not
  \<open>None\<close>; and no exception ever leaves \<open>translate_query\<close>.
\<close>

theorem translate_query_fail_open:
  assumes "q \<noteq> []"
    and "snd (translate_query backend q calls) \<noteq> calls"
    and "fst (call_deepseek_translation backend q calls) = Inl e"
  shows "fst (translate_query backend q calls) = Inr (Some q) \<and>
         (\<forall>b q' n e'. fst (translate_query b q' n) \<noteq> Inl e')"
proof (intro conjI)
  from assms(2) have "strip q \<noteq> []"
    by (auto simp: translate_query_calls split: if_splits)
  with assms(3) show "fst (translate_query backend q calls) = Inr (Some q)"
    by (simp add: translate_query_fail_open_strong)
  show "\<forall>b q' n e'. fst (translate_query b q' n) \<noteq> Inl e'"
    by (auto simp: translate_query_def split: sum.splits prod.splits)
qed

lemma extract_translation_nonempty: "extract_translation data = Inr t \<Longrightarrow> t \<noteq> []"
  by (auto simp: extract_translation_def bind_exn_def split: sum.splits if_splits)

text \<open>
  C10: for every input, \<open>translate_query\<close> returns \<open>None\<close> or a
  non-empty string.
\<close>

theorem translate_query_none_or_nonempty:
  "fst (translate_query backend q calls) = Inr None \<or>
   (\<exists>s. fst (translate_query backend q calls) = Inr (Some s) \<and> s \<noteq> [])"
  by (auto simp: translate_query_def call_deepseek_translation_def bind_exn_def
      split: sum.splits prod.splits dest: extract_translation_nonempty)


section \<open>Properties of the vector search\<close>

lemma distance_to_similarity_bands:
  "distance_to_similarity d =
     (if d \<le> 1 then 1 - d else if d \<le> 2 then 1 - d / 2 else 1 / (1 + d))"
  by (simp add: distance_to_similarity_def max_def)

lemma distance_to_similarity_range:
  "0 \<le> d \<Longrightarrow> 0 \<le> distance_to_similarity d \<and> distance_to_similarity d \<le> 1"
  by (simp add: distance_to_similarity_def max_def)

lemma distance_to_similarity_mono_in_band:
  assumes "d1 \<le> d2"
    and "d2 \<le> 1 \<or> (1 < d1 \<and> d2 \<le> 2) \<or> 2 < d1"
  shows "distance_to_similarity d2 \<le> distance_to_similarity d1"
  using assms by (auto simp: distance_to_similarity_bands frac_le)

text \<open>
  C3: the conversion is claimed monotonic (a smaller distance gives a greater or equal
  similarity). At the distances 1 and 3/2, on the two sides of the first band boundary,
  the code gives 0 and 1/4: the smaller distance gets the smaller similarity.
\<close>

theorem similarity_conversion_band_jump:
  "(1::real) \<le> 3 / 2 \<and> distance_to_similarity 1 = 0 \<and> distance_to_similarity (3 / 2) = 1 / 4 \<and>
   \<not> distance_to_similarity (3 / 2) \<le> distance_to_similarity 1"
  by (simp add: distance_to_similarity_def)

lemma collect_results_similarity:
  "r \<in> set (collect_results mds dists thr i docs) \<Longrightarrow>
   similarity r = distance_to_similarity (distance r) \<and> \<not> similarity r < thr"
proof (induction docs arbitrary: i)
  case Nil
  then show ?case by simp
next
  case (Cons document rest)
  show ?case
  proof (cases "r \<in> set (collect_results mds dists thr (Suc i) rest)")
    case True
    then show ?thesis by (rule Cons.IH)
  next
    case False
    with Cons.prems show ?thesis
      by (auto simp: Let_def split: if_splits)
  qed
qed

lemma collect_results_pairs:
  "map (\<lambda>r. (doc_content r, distance r))
     (collect_results mds (pre @ map snd ps) thr (length pre) (map fst ps)) =
   filter (\<lambda>(doc, d). \<not> distance_to_similarity d < thr) ps"
proof (induction ps arbitrary: pre)
  case Nil
  show ?case by simp
next
  case (Cons p ps)
  have "map (\<lambda>r. (doc_content r, distance r))
          (collect_results mds ((pre @ [snd p]) @ map snd ps) thr (length (pre @ [snd p]))
             (map fst ps)) =
        filter (\<lambda>(doc, d). \<not> distance_to_similarity d < thr) ps"
    by (rule Cons.IH)
  then show ?case
    by (cases p) (simp add: Let_def nth_append)
qed

lemma search_similar_run:
  assumes "initialize_client idx = None"
    and "strip query \<noteq> []"
    and "collection_count idx = Inr n" and "n \<noteq> 0"
    and "create_embedding idx query = Inr emb"
    and "collection_query idx emb (limit_or_default cfg limit) = Inr sr"
  shows "search_similar cfg idx query limit threshold =
         Inr (process_search_results sr (threshold_or_default cfg threshold))"
  using assms by (simp add: search_similar_def search_similar_body_def bind_exn_def)

lemma process_search_results_pairs:
  assumes "documents sr = Some (map fst ps # drest)"
    and "distances sr = Some (map snd ps # xrest)"
  shows "process_search_results sr thr =
         sort_key (\<lambda>r. - similarity r)
           (collect_results (case metadatas sr of Some (m # _) \<Rightarrow> m | _ \<Rightarrow> [])
              (map snd ps) thr 0 (map fst ps))"
  using assms by (cases ps) (simp_all add: process_search_results_def sort_by_similarity_desc_def)

text \<open>
  C4: as amended: for every list of (document, distance) pairs that the index returns
  and every threshold argument, the threshold in effect is the argument when it is given
  and is not 0, and the configured \<open>VECTOR_SIMILARITY_THRESHOLD\<close> when it is
  omitted or 0. \<open>search_similar\<close> gives each result the similarity 1 - d for
  d at most 1, 1 - d/2 for d above 1 and at most 2, and 1/(1+d) above 2 (a value in
  [0,1] for every non-negative d); the results it returns are the pairs whose similarity
  is not below the threshold in effect; they are in descending order of similarity, and
  results of equal similarity keep the order of the index.
\<close>

theorem search_similar_filters_and_ranks:
  assumes "initialize_client idx = None"
    and "strip query \<noteq> []"
    and "collection_count idx = Inr n" and "n \<noteq> 0"
    and "create_embedding idx query = Inr emb"
    and "collection_query idx emb (limit_or_default cfg limit) = Inr sr"
    and "documents sr = Some (map fst ps # drest)"
    and "distances sr = Some (map snd ps # xrest)"
  shows "\<exists>results t. search_similar cfg idx query limit threshold = Inr results \<and>
     t = (case threshold of
            None \<Rightarrow> VECTOR_SIMILARITY_THRESHOLD cfg
          | Some x \<Rightarrow> if x = 0 then VECTOR_SIMILARITY_THRESHOLD cfg else x) \<and>
     (\<forall>d. distance_to_similarity d =
        (if d \<le> 1 then 1 - d else if d \<le> 2 then 1 - d / 2 else 1 / (1 + d))) \<and>
     (\<forall>r \<in> set results. similarity r = distance_to_similarity (distance r)) \<and>
     (\<forall>d \<ge> 0. 0 \<le> distance_to_similarity d \<and> distance_to_similarity d \<le> 1) \<and>
     mset (map (\<lambda>r. (doc_content r, distance r)) results) =
       mset (filter (\<lambda>(doc, d). \<not> distance_to_similarity d < t) ps) \<and>
     sorted (rev (map similarity results)) \<and>
     (\<forall>s. map (\<lambda>r. (doc_content r, distance r)) (filter (\<lambda>r. similarity r = s) results) =
          filter (\<lambda>(doc, d). distance_to_similarity d = s)
            (filter (\<lambda>(doc, d). \<not> distance_to_similarity d < t) ps))"
proof -
  define t where "t = threshold_or_default cfg threshold"
  define cr where "cr = collect_results (case metadatas sr of Some (m # _) \<Rightarrow> m | _ \<Rightarrow> [])
              (map snd ps) t 0 (map fst ps)"
  define results where "results = sort_key (\<lambda>r. - similarity r) cr"
  have thr: "t = (case threshold of
            None \<Rightarrow> VECTOR_SIMILARITY_THRESHOLD cfg
          | Some x \<Rightarrow> if x = 0 then VECTOR_SIMILARITY_THRESHOLD cfg else x)"
    by (simp add: t_def threshold_or_default_def)
  have run: "search_similar cfg idx query limit threshold = Inr results"
    using search_similar_run [OF assms(1-6), of threshold]
      process_search_results_pairs [OF assms(7,8), of t]
    by (simp add: t_def results_def cr_def)
  have bands: "\<forall>d. distance_to_similarity d =
        (if d \<le> 1 then 1 - d else if d \<le> 2 then 1 - d / 2 else 1 / (1 + d))"
    using distance_to_similarity_bands by blast
  have sim: "similarity r = distance_to_similarity (distance r)" if "r \<in> set cr" for r
    using that collect_results_similarity unfolding cr_def by blast
  have pairs: "map (\<lambda>r. (doc_content r, distance r)) cr =
               filter (\<lambda>(doc, d). \<not> distance_to_similarity d < t) ps"
    using collect_results_pairs [of _ "[]" ps t] by (simp add: cr_def)
  have a: "\<forall>r \<in> set results. similarity r = distance_to_similarity (distance r)"
    using sim by (simp add: results_def)
  have b: "\<forall>d \<ge> 0. 0 \<le> distance_to_similarity d \<and> distance_to_similarity d \<le> 1"
    using distance_to_similarity_range by blast
  have c: "mset (map (\<lambda>r. (doc_content r, distance r)) results) =
       mset (filter (\<lambda>(doc, d). \<not> distance_to_similarity d < t) ps)"
    unfolding pairs [symmetric] by (simp add: results_def)
  have "sorted (map (\<lambda>r. - similarity r) results)"
    unfolding results_def by (rule sorted_sort_key)
  then have d: "sorted (rev (map similarity results))"
    by (simp add: sorted_wrt_rev sorted_map sorted_wrt_map)
  have e: "map (\<lambda>r. (doc_content r, distance r)) (filter (\<lambda>r. similarity r = s) results) =
          filter (\<lambda>(doc, d). distance_to_similarity d = s)
            (filter (\<lambda>(doc, d). \<not> distance_to_similarity d < t) ps)" for s
  proof -
    have "filter (\<lambda>r. similarity r = s) results = filter (\<lambda>r. - similarity r = - s) results"
      by simp
    also have "\<dots> = filter (\<lambda>r. - similarity r = - s) cr"
      unfolding results_def by (rule sort_key_stable)
    also have "\<dots> = filter (\<lambda>r. distance_to_similarity (distance r) = s) cr"
      by (rule filter_cong) (auto simp: sim)
    finally have "map (\<lambda>r. (doc_content r, distance r)) (filter (\<lambda>r. similarity r = s) results) =
      filter (\<lambda>(doc, d). distance_to_similarity d = s) (map (\<lambda>r. (doc_content r, distance r)) cr)"
      by (simp add: filter_map comp_def)
    then show ?thesis by (simp only: pairs)
  qed
  from run thr bands a b c d e show ?thesis by blast
qed

text \<open>
  C4: the claim as stated fails for the threshold 0. With the configured default 7/10,
  \<open>search_similar\<close> discards the document at distance 1/2, whose similarity
  1/2 is not below 0: a threshold of 0 is replaced by the default.
\<close>

theorem search_similar_zero_threshold_counterexample:
  "search_similar example_config (example_index (Inr example_answer)) (str_of ''q'') None (Some 0)
     = Inr [\<lparr>doc_content = str_of ''near'', similarity = 9 / 10, distance = 1 / 10, metadata = []\<rparr>]
   \<and> \<not> distance_to_similarity (1 / 2) < 0"
  by (simp add: search_similar_def search_similar_body_def example_config_def example_index_def
      example_answer_def bind_exn_def strip_def str_of_def isspace_def limit_or_default_def
      threshold_or_default_def process_search_results_def sort_by_similarity_desc_def
      distance_to_similarity_def)

theorem search_similar_filters_and_ranks_witness:
  "(\<exists>results.
     search_similar example_config (example_index (Inr example_answer)) (str_of ''q'') None
       (Some (1 / 4)) = Inr results \<and>
     mset (map (\<lambda>r. (doc_content r, distance r)) results) =
       mset [(str_of ''far'', 1 / 2), (str_of ''near'', 1 / 10)] \<and>
     sorted (rev (map similarity results))) \<and>
   (\<exists>results.
     search_similar example_config (example_index (Inr example_answer)) (str_of ''q'') None
       None = Inr results \<and>
     mset (map (\<lambda>r. (doc_content r, distance r)) results) = mset [(str_of ''near'', 1 / 10)])"
proof -
  have pre: "initialize_client (example_index (Inr example_answer)) = None"
    "strip (str_of ''q'') \<noteq> []"
    "collection_count (example_index (Inr example_answer)) = Inr 1" "(1::nat) \<noteq> 0"
    "create_embedding (example_index (Inr example_answer)) (str_of ''q'') = Inr []"
    "collection_query (example_index (Inr example_answer)) []
       (limit_or_default example_config None) = Inr example_answer"
    "documents example_answer =
       Some (map fst [(str_of ''far'', 1 / 2), (str_of ''near'', 1 / 10)] # [])"
    "distances example_answer =
       Some (map snd [(str_of ''far'', 1 / 2 :: real), (str_of ''near'', 1 / 10)] # [])"
    by (simp_all add: example_index_def example_answer_def strip_def str_of_def isspace_def)
  have keep: "filter (\<lambda>(doc, d). \<not> distance_to_similarity d < 1 / 4)
                [(str_of ''far'', 1 / 2), (str_of ''near'', 1 / 10)] =
              [(str_of ''far'', 1 / 2), (str_of ''near'', 1 / 10)]"
    and keep_default: "filter (\<lambda>(doc, d). \<not> distance_to_similarity d < 7 / 10)
                [(str_of ''far'', 1 / 2), (str_of ''near'', 1 / 10)] =
              [(str_of ''near'', 1 / 10)]"
    by (simp_all add: distance_to_similarity_def)
  have t1: "(case Some (1 / 4 :: real) of
               None \<Rightarrow> VECTOR_SIMILARITY_THRESHOLD example_config
             | Some x \<Rightarrow> if x = 0 then VECTOR_SIMILARITY_THRESHOLD example_config else x) = 1 / 4"
    and t2: "(case None of
               None \<Rightarrow> VECTOR_SIMILARITY_THRESHOLD example_config
             | Some x \<Rightarrow> if x = 0 then VECTOR_SIMILARITY_THRESHOLD example_config else x) = 7 / 10"
    by (simp_all add: example_config_def)
  have w1: "\<exists>results.
     search_similar example_config (example_index (Inr example_answer)) (str_of ''q'') None
       (Some (1 / 4)) = Inr results \<and>
     mset (map (\<lambda>r. (doc_content r, distance r)) results) =
       mset [(str_of ''far'', 1 / 2), (str_of ''near'', 1 / 10)] \<and>
     sorted (rev (map similarity results))"
    using search_similar_filters_and_ranks [OF pre, where threshold = "Some (1 / 4)"]
    unfolding t1 by (metis keep)
  have w2: "\<exists>results.
     search_similar example_config (example_index (Inr example_answer)) (str_of ''q'') None
       None = Inr results \<and>
     mset (map (\<lambda>r. (doc_content r, distance r)) results) = mset [(str_of ''near'', 1 / 10)]"
    using search_similar_filters_and_ranks [OF pre, where threshold = None]
    unfolding t2 by (metis keep_default)
  from w1 w2 show ?thesis by (rule conjI)
qed


section \<open>Properties of the context builder\<close>

lemma role_value_system: "role_value r = str_of ''system'' \<longleftrightarrow> r = SYSTEM"
  by (cases r) (simp_all add: str_of_def)

lemma history_filter: "(role m = USER \<or> role m = ASSISTANT) \<longleftrightarrow> role m \<noteq> SYSTEM"
  by (cases "role m") simp_all

lemma no_system_in_history:
  "filter (\<lambda>a. api_role a = str_of ''system'') (map to_dict (filter (\<lambda>m. role m \<noteq> SYSTEM) msgs)) = []"
  by (induction msgs) (simp_all add: to_dict_def role_value_system)

lemma user_not_system: "str_of ''user'' \<noteq> str_of ''system''"
  by (simp add: str_of_def)

lemma to_dict_entry:
  "to_dict m =
   \<lparr>api_role = (case role m of
                  USER \<Rightarrow> str_of ''user''
                | ASSISTANT \<Rightarrow> str_of ''assistant''
                | SYSTEM \<Rightarrow> str_of ''system''),
    api_content = content m\<rparr>"
  by (cases "role m") (simp_all add: to_dict_def)

text \<open>
  C5: with the prompt service of the repository, the sequence
  \<open>build_context_for_ai\<close> returns is the system message, then one entry for
  each history turn that is not a system turn, in their order, carrying the role and the
  text of the turn, then the same system message once more exactly when more than 5
  turns were appended, and the current message as a user entry; it holds one system
  message when at most 5 turns were appended and two otherwise.
\<close>

theorem build_context_for_ai_structure:
  "\<exists>ctx system_message history.
     build_context_for_ai (file_prompt_service files) msgs persona current promotions_info
       vector_context = Inr ctx \<and>
     system_message =
       \<lparr>api_role = str_of ''system'',
        api_content = get_system_prompt files persona promotions_info vector_context\<rparr> \<and>
     history =
       map (\<lambda>m. \<lparr>api_role = (case role m of
                               USER \<Rightarrow> str_of ''user''
                             | ASSISTANT \<Rightarrow> str_of ''assistant''
                             | SYSTEM \<Rightarrow> str_of ''system''),
                 api_content = content m\<rparr>)
         (filter (\<lambda>m. role m \<noteq> SYSTEM) msgs) \<and>
     ctx = [system_message] @ history @
           (if length history \<le> 5 then [] else [system_message]) @
           [\<lparr>api_role = str_of ''user'', api_content = current\<rparr>] \<and>
     length (filter (\<lambda>a. api_role a = str_of ''system'') ctx) =
       (if length history \<le> 5 then 1 else 2)"
proof -
  have entries: "map (\<lambda>m. \<lparr>api_role = (case role m of
                               USER \<Rightarrow> str_of ''user''
                             | ASSISTANT \<Rightarrow> str_of ''assistant''
                             | SYSTEM \<Rightarrow> str_of ''system''),
                 api_content = content m\<rparr>) xs = map to_dict xs" for xs
    by (simp add: to_dict_entry)
  show ?thesis
    unfolding entries
    by (simp add: build_context_for_ai_def file_prompt_service_def Let_def history_filter
      system_prompt_threshold_def no_system_in_history user_not_system)
qed

lemma persona_value_cases:
  "persona_value persona =
   (case persona of
      BUSINESS \<Rightarrow> str_of ''business'' | BELLA \<Rightarrow> str_of ''bella'' | BEN \<Rightarrow> str_of ''ben'')"
  by (cases persona) simp_all

text \<open>
  C7: when the prompt service raises, \<open>build_context_for_ai\<close> returns two
  messages: the system instruction of the handler, a fixed sentence with the name of the
  persona (business, bella or ben) in it, and the current user message; and it never
  raises, whatever the service does.
\<close>

theorem build_context_for_ai_fallback:
  assumes "service persona promotions_info vector_context = Inl e"
  shows "build_context_for_ai service msgs persona current promotions_info vector_context =
           Inr [\<lparr>api_role = str_of ''system'',
                 api_content =
                   [1058, 1099, 32, 1082, 1086, 1085, 1089, 1091, 1083, 1100, 1090, 1072,
                    1085, 1090, 32, 1082, 1072, 1079, 1080, 1085, 1086, 32, 1074, 32, 1088,
                    1077, 1078, 1080, 1084, 1077, 32]
                   @ (case persona of
                        BUSINESS \<Rightarrow> str_of ''business''
                      | BELLA \<Rightarrow> str_of ''bella''
                      | BEN \<Rightarrow> str_of ''ben'')
                   @ [46, 32, 1054, 1090, 1074, 1077, 1095, 1072, 1081, 32, 1087, 1088, 1086,
                      1092, 1077, 1089, 1089, 1080, 1086, 1085, 1072, 1083, 1100, 1085, 1086,
                      46]\<rparr>,
                \<lparr>api_role = str_of ''user'', api_content = current\<rparr>] \<and>
         (\<forall>svc ms p c pr v x. build_context_for_ai svc ms p c pr v \<noteq> Inl x)"
proof (intro conjI)
  show "build_context_for_ai service msgs persona current promotions_info vector_context =
           Inr [\<lparr>api_role = str_of ''system'',
                 api_content =
                   [1058, 1099, 32, 1082, 1086, 1085, 1089, 1091, 1083, 1100, 1090, 1072,
                    1085, 1090, 32, 1082, 1072, 1079, 1080, 1085, 1086, 32, 1074, 32, 1088,
                    1077, 1078, 1080, 1084, 1077, 32]
                   @ (case persona of
                        BUSINESS \<Rightarrow> str_of ''business''
                      | BELLA \<Rightarrow> str_of ''bella''
                      | BEN \<Rightarrow> str_of ''ben'')
                   @ [46, 32, 1054, 1090, 1074, 1077, 1095, 1072, 1081, 32, 1087, 1088, 1086,
                      1092, 1077, 1089, 1089, 1080, 1086, 1085, 1072, 1083, 1100, 1085, 1086,
                      46]\<rparr>,
                \<lparr>api_role = str_of ''user'', api_content = current\<rparr>]"
    using assms
    by (simp add: build_context_for_ai_def fallback_prompt_def persona_value_cases)
  show "\<forall>svc ms p c pr v x. build_context_for_ai svc ms p c pr v \<noteq> Inl x"
    by (auto simp: build_context_for_ai_def Let_def split: sum.splits)
qed

theorem build_context_for_ai_fallback_witness:
  "build_context_for_ai (\<lambda>_ _ _. Inl OtherError) [] BELLA (str_of ''hi'') None None =
     Inr [\<lparr>api_role = [115, 121, 115, 116, 101, 109],
           api_content =
             [1058, 1099, 32, 1082, 1086, 1085, 1089, 1091, 1083, 1100, 1090, 1072, 1085,
              1090, 32, 1082, 1072, 1079, 1080, 1085, 1086, 32, 1074, 32, 1088, 1077, 1078,
              1080, 1084, 1077, 32, 98, 101, 108, 108, 97, 46, 32, 1054, 1090, 1074, 1077,
              1095, 1072, 1081, 32, 1087, 1088, 1086, 1092, 1077, 1089, 1089, 1080, 1086,
              1085, 1072, 1083, 1100, 1085, 1086, 46]\<rparr>,
          \<lparr>api_role = [117, 115, 101, 114], api_content = [104, 105]\<rparr>]"
  using build_context_for_ai_fallback [of "\<lambda>_ _ _. Inl OtherError" BELLA None None OtherError "[]" "str_of ''hi''"]
  by (simp add: str_of_def)


section \<open>Properties of the generation\<close>



lemma build_context_returns: "\<exists>ctx. build_context_for_ai svc ms p c pr v = Inr ctx"
  by (auto simp: build_context_for_ai_def Let_def split: sum.splits)








section \<open>Properties of the database layer\<close>

lemma filter_by_key_bound:
  assumes "distinct (map f xs)"
  shows "length (filter (\<lambda>x. f x \<in> set ks) xs) \<le> length ks"
proof -
  let ?ys = "filter (\<lambda>x. f x \<in> set ks) xs"
  have "distinct (map f ?ys)" using assms by (rule distinct_map_filter)
  then have "length ?ys = card (set (map f ?ys))"
    by (metis distinct_card length_map)
  also have "\<dots> \<le> card (set ks)"
    by (rule card_mono) auto
  also have "\<dots> \<le> length ks" by (rule card_length)
  finally show ?thesis .
qed

lemma cleanup_chat_rows:
  "filter (in_chat cid) (message_rows (cleanup_old_messages ord cfg db cid)) =
   filter (\<lambda>m. msg_id m \<in> set (map msg_id (take (MESSAGE_HISTORY_LIMIT cfg)
                      (ord (filter (in_chat cid) (message_rows db))))))
     (filter (in_chat cid) (message_rows db))"
  by (auto simp: cleanup_old_messages_def Let_def intro: filter_cong)

lemma cleanup_other_rows:
  "c \<noteq> cid \<Longrightarrow>
   filter (in_chat c) (message_rows (cleanup_old_messages ord cfg db cid)) =
   filter (in_chat c) (message_rows db)"
  by (auto simp: cleanup_old_messages_def Let_def in_chat_def intro: filter_cong)

lemma cleanup_bounded:
  assumes "distinct (map msg_id (message_rows db))"
  shows "length (filter (in_chat cid) (message_rows (cleanup_old_messages ord cfg db cid)))
         \<le> MESSAGE_HISTORY_LIMIT cfg"
proof -
  have "distinct (map msg_id (filter (in_chat cid) (message_rows db)))"
    using assms by (rule distinct_map_filter)
  then have "length (filter (in_chat cid) (message_rows (cleanup_old_messages ord cfg db cid)))
      \<le> length (map msg_id (take (MESSAGE_HISTORY_LIMIT cfg)
                      (ord (filter (in_chat cid) (message_rows db)))))"
    unfolding cleanup_chat_rows by (rule filter_by_key_bound)
  then show ?thesis by simp
qed

lemma save_message_inserted:
  "snd (save_message ord cfg now db m) =
   cleanup_old_messages ord cfg (inserted now db m) (chat_id m)"
  by (simp add: save_message_def inserted_def Let_def)

lemma inserted_rows:
  "message_rows (inserted now db m) =
   message_rows db @ [m\<lparr>msg_id := Some (Suc (last_rowid db))\<rparr>]"
  "last_rowid (inserted now db m) = Suc (last_rowid db)"
  by (simp_all add: inserted_def update_message_count_def)

lemma inserted_well_formed:
  assumes "rows_well_formed db"
  shows "rows_well_formed (inserted now db m)"
proof -
  have "Some (Suc (last_rowid db)) \<notin> msg_id ` set (message_rows db)"
    using assms by (fastforce simp: rows_well_formed_def)
  with assms show ?thesis
    by (fastforce simp: rows_well_formed_def inserted_rows)
qed

lemma cleanup_well_formed:
  assumes "rows_well_formed db"
  shows "rows_well_formed (cleanup_old_messages ord cfg db cid)"
  using assms
  by (auto simp: rows_well_formed_def cleanup_old_messages_def Let_def distinct_map_filter)

lemma save_message_well_formed:
  "rows_well_formed db \<Longrightarrow> rows_well_formed (snd (save_message ord cfg now db m))"
  by (simp add: save_message_inserted inserted_well_formed cleanup_well_formed)

lemma save_message_bounded:
  assumes "rows_well_formed db"
  shows "length (filter (in_chat (chat_id m)) (message_rows (snd (save_message ord cfg now db m))))
         \<le> MESSAGE_HISTORY_LIMIT cfg"
proof -
  have "rows_well_formed (inserted now db m)" using assms by (rule inserted_well_formed)
  then have "distinct (map msg_id (message_rows (inserted now db m)))"
    by (simp add: rows_well_formed_def)
  then show ?thesis unfolding save_message_inserted by (rule cleanup_bounded)
qed

lemma save_message_other_chats:
  assumes "c \<noteq> chat_id m"
  shows "filter (in_chat c) (message_rows (snd (save_message ord cfg now db m))) =
         filter (in_chat c) (message_rows db)"
  using assms by (simp add: save_message_inserted cleanup_other_rows inserted_rows in_chat_def)

text \<open>The counter holds the number of rows before the trim.\<close>

lemma save_message_counter:
  "map_option message_count (chat_state_rows (snd (save_message ord cfg now db m)) (chat_id m)) =
   Some (int (length (filter (in_chat (chat_id m)) (message_rows db))) + 1)"
  by (simp add: save_message_def update_message_count_def cleanup_old_messages_def Let_def
      in_chat_def)

lemma retention_invariant_save_message:
  assumes "retention_invariant cfg db"
  shows "retention_invariant cfg (snd (save_message ord cfg now db m))"
  unfolding retention_invariant_def
proof (intro conjI allI)
  show "rows_well_formed (snd (save_message ord cfg now db m))"
    using assms by (simp add: retention_invariant_def save_message_well_formed)
  show "length (filter (in_chat c) (message_rows (snd (save_message ord cfg now db m))))
        \<le> MESSAGE_HISTORY_LIMIT cfg" for c
  proof (cases "c = chat_id m")
    case True
    with assms show ?thesis by (simp add: retention_invariant_def save_message_bounded)
  next
    case False
    with assms show ?thesis by (simp add: retention_invariant_def save_message_other_chats)
  qed
qed

lemma retention_invariant_save_messages:
  "retention_invariant cfg db \<Longrightarrow> retention_invariant cfg (save_messages ord cfg db writes)"
  by (induction writes arbitrary: db) (auto simp: retention_invariant_save_message)

lemma save_messages_snoc:
  "save_messages ord cfg db (writes @ [(now, m)]) =
   snd (save_message ord cfg now (save_messages ord cfg db writes) m)"
  by (induction writes arbitrary: db) auto

lemma retention_invariant_empty: "retention_invariant cfg empty_database"
  by (simp add: retention_invariant_def rows_well_formed_def empty_database_def)

lemma messages_bounded_after_any_writes:
  "length (filter (in_chat c) (message_rows (save_messages ord cfg empty_database writes)))
   \<le> MESSAGE_HISTORY_LIMIT cfg"
  using retention_invariant_save_messages [OF retention_invariant_empty]
  by (simp add: retention_invariant_def)

lemma ties_newest_first_orders: "orders_by_created_at_desc ties_newest_first"
  by (simp add: orders_by_created_at_desc_def ties_newest_first_def)

text \<open>The rows of the chat that the trim keeps are the first H of the engine's order.\<close>

lemma kept_rows_are_first:
  assumes "orders_by_created_at_desc ord"
    and "distinct (map msg_id (message_rows db))"
  shows "set (filter (in_chat cid) (message_rows (cleanup_old_messages ord cfg db cid))) =
         set (take (MESSAGE_HISTORY_LIMIT cfg) (ord (filter (in_chat cid) (message_rows db))))"
proof -
  let ?rows = "filter (in_chat cid) (message_rows db)"
  let ?o = "ord ?rows"
  let ?first = "take (MESSAGE_HISTORY_LIMIT cfg) ?o"
  have perm: "mset ?o = mset ?rows"
    using assms(1) by (simp add: orders_by_created_at_desc_def)
  then have sets: "set ?o = set ?rows" by (rule mset_eq_setD)
  have "distinct (map msg_id ?rows)" using assms(2) by (rule distinct_map_filter)
  then have inj: "inj_on msg_id (set ?rows)" by (simp add: distinct_map)
  have first_sub: "set ?first \<subseteq> set ?rows"
    using sets set_take_subset by fast
  show ?thesis
  proof (rule set_eqI)
    fix m
    show "m \<in> set (filter (in_chat cid) (message_rows (cleanup_old_messages ord cfg db cid)))
          \<longleftrightarrow> m \<in> set ?first"
    proof
      assume "m \<in> set (filter (in_chat cid) (message_rows (cleanup_old_messages ord cfg db cid)))"
      then have m: "m \<in> set ?rows" and "msg_id m \<in> msg_id ` set ?first"
        unfolding cleanup_chat_rows by auto
      then obtain k where k: "k \<in> set ?first" "msg_id k = msg_id m" by auto
      with first_sub have "k \<in> set ?rows" by blast
      with inj m k(2) have "k = m" by (auto dest: inj_onD)
      with k(1) show "m \<in> set ?first" by simp
    next
      assume "m \<in> set ?first"
      with first_sub show
        "m \<in> set (filter (in_chat cid) (message_rows (cleanup_old_messages ord cfg db cid)))"
        unfolding cleanup_chat_rows by auto
    qed
  qed
qed

lemma kept_rows_most_recent:
  assumes "orders_by_created_at_desc ord"
    and "distinct (map msg_id (message_rows db))"
    and "k \<in> set (message_rows (cleanup_old_messages ord cfg db cid))" and "in_chat cid k"
    and "d \<in> set (message_rows db)" and "in_chat cid d"
    and "d \<notin> set (message_rows (cleanup_old_messages ord cfg db cid))"
  shows "created_at d \<le> created_at k"
proof -
  let ?rows = "filter (in_chat cid) (message_rows db)"
  let ?o = "ord ?rows"
  let ?H = "MESSAGE_HISTORY_LIMIT cfg"
  have first: "set (filter (in_chat cid) (message_rows (cleanup_old_messages ord cfg db cid))) =
         set (take ?H ?o)"
    using assms(1,2) by (rule kept_rows_are_first)
  have k: "k \<in> set (take ?H ?o)" using assms(3,4) first by auto
  have "mset ?o = mset ?rows"
    using assms(1) by (simp add: orders_by_created_at_desc_def)
  then have "set ?o = set ?rows" by (rule mset_eq_setD)
  with assms(5,6) have "d \<in> set (take ?H ?o @ drop ?H ?o)" by simp
  then have "d \<in> set (take ?H ?o) \<union> set (drop ?H ?o)" by (simp only: set_append)
  moreover have "d \<notin> set (take ?H ?o)" using assms(6,7) first by auto
  ultimately have d: "d \<in> set (drop ?H ?o)" by blast
  have "sorted (map (\<lambda>m. - created_at m) (take ?H ?o @ drop ?H ?o))"
    using assms(1) by (simp add: orders_by_created_at_desc_def)
  then have "\<forall>x \<in> set (take ?H ?o). \<forall>y \<in> set (drop ?H ?o). - created_at x \<le> - created_at y"
    unfolding map_append sorted_append by auto
  with k d show ?thesis by auto
qed

lemma kept_rows_count:
  assumes "orders_by_created_at_desc ord"
    and "distinct (map msg_id (message_rows db))"
  shows "length (filter (in_chat cid) (message_rows (cleanup_old_messages ord cfg db cid))) =
         min (MESSAGE_HISTORY_LIMIT cfg) (length (filter (in_chat cid) (message_rows db)))"
proof -
  let ?rows = "filter (in_chat cid) (message_rows db)"
  let ?o = "ord ?rows"
  let ?H = "MESSAGE_HISTORY_LIMIT cfg"
  let ?kept = "filter (in_chat cid) (message_rows (cleanup_old_messages ord cfg db cid))"
  have perm: "mset ?o = mset ?rows"
    using assms(1) by (simp add: orders_by_created_at_desc_def)
  have "distinct (map msg_id ?rows)" using assms(2) by (rule distinct_map_filter)
  then have dr: "distinct ?rows" by (simp add: distinct_map)
  then have "distinct ?o" using perm by (metis mset_eq_imp_distinct_iff)
  then have dt: "distinct (take ?H ?o)" by simp
  have "distinct ?kept" unfolding cleanup_chat_rows using dr by (rule distinct_filter)
  then have "card (set ?kept) = length ?kept" by (rule distinct_card)
  then have "length ?kept = card (set ?kept)" by (rule sym)
  also have "\<dots> = card (set (take ?H ?o))"
    by (simp only: kept_rows_are_first [OF assms])
  also have "\<dots> = length (take ?H ?o)" using dt by (rule distinct_card)
  also have "\<dots> = min ?H (length ?rows)"
    using perm by (metis length_take mset_eq_length min.commute)
  finally show ?thesis .
qed

lemma save_messages_well_formed:
  "rows_well_formed (save_messages ord cfg empty_database writes)"
  using retention_invariant_save_messages [OF retention_invariant_empty]
  by (simp add: retention_invariant_def)

lemma save_message_retention:
  assumes "orders_by_created_at_desc ord"
    and "db = save_messages ord cfg empty_database writes"
    and "db' = snd (save_message ord cfg now db m)"
  shows "(\<forall>c. length (filter (in_chat c) (message_rows db')) \<le> MESSAGE_HISTORY_LIMIT cfg) \<and>
         length (filter (in_chat (chat_id m)) (message_rows db')) =
           min (MESSAGE_HISTORY_LIMIT cfg)
             (length (filter (in_chat (chat_id m)) (message_rows db)) + 1) \<and>
         (\<forall>k d. k \<in> set (message_rows db') \<and> in_chat (chat_id m) k \<and>
                d \<in> set (message_rows db @ [m\<lparr>msg_id := Some (Suc (last_rowid db))\<rparr>]) \<and>
                in_chat (chat_id m) d \<and> d \<notin> set (message_rows db')
                \<longrightarrow> created_at d \<le> created_at k)"
proof (intro conjI allI impI)
  have wf: "rows_well_formed db"
    unfolding assms(2) by (rule save_messages_well_formed)
  then have "rows_well_formed (inserted now db m)" by (rule inserted_well_formed)
  then have dist: "distinct (map msg_id (message_rows (inserted now db m)))"
    by (simp add: rows_well_formed_def)
  have db': "db' = cleanup_old_messages ord cfg (inserted now db m) (chat_id m)"
    by (simp add: assms(3) save_message_inserted)
  have "db' = save_messages ord cfg empty_database (writes @ [(now, m)])"
    unfolding assms(3) assms(2) by (simp add: save_messages_snoc)
  then show "length (filter (in_chat c) (message_rows db')) \<le> MESSAGE_HISTORY_LIMIT cfg" for c
    by (simp add: messages_bounded_after_any_writes)
  show "length (filter (in_chat (chat_id m)) (message_rows db')) =
           min (MESSAGE_HISTORY_LIMIT cfg)
             (length (filter (in_chat (chat_id m)) (message_rows db)) + 1)"
    unfolding db' kept_rows_count [OF assms(1) dist]
    by (simp add: inserted_rows in_chat_def)
  show "created_at d \<le> created_at k"
    if "k \<in> set (message_rows db') \<and> in_chat (chat_id m) k \<and>
        d \<in> set (message_rows db @ [m\<lparr>msg_id := Some (Suc (last_rowid db))\<rparr>]) \<and>
        in_chat (chat_id m) d \<and> d \<notin> set (message_rows db')" for k d
  proof (rule kept_rows_most_recent [OF assms(1) dist])
    show "k \<in> set (message_rows (cleanup_old_messages ord cfg (inserted now db m) (chat_id m)))"
      using that by (simp add: db')
    show "in_chat (chat_id m) k" using that by simp
    show "d \<in> set (message_rows (inserted now db m))"
      using that by (simp only: inserted_rows)
    show "in_chat (chat_id m) d" using that by simp
    show "d \<notin> set (message_rows (cleanup_old_messages ord cfg (inserted now db m) (chat_id m)))"
      using that by (simp add: db')
  qed
qed

lemmas database_eval_defs =
  three_saves_def tied_saves_def save_message_def update_message_count_def
  cleanup_old_messages_def empty_database_def example_config_def example_message_def
  in_chat_def ties_newest_first_def Let_def

text \<open>
  C1: the stored turn count is claimed never to exceed the history limit after a write.
  After three writes to one chat with the limit 2, the two most recent messages remain,
  and the stored \<open>message_count\<close> is 3: \<open>save_message\<close>
  recomputes the counter before the trim.
\<close>

theorem save_message_counter_exceeds_limit:
  "MESSAGE_HISTORY_LIMIT example_config = 2 \<and>
   map msg_id (message_rows three_saves) = [Some 2, Some 3] \<and>
   map created_at (message_rows three_saves) = [2, 3] \<and>
   map_option message_count (chat_state_rows three_saves 7) = Some 3"
  by (simp add: database_eval_defs)

lemma save_message_retention_example:
  "orders_by_created_at_desc ties_newest_first \<and>
   length (filter (in_chat 7) (message_rows three_saves)) = 2 \<and>
   map created_at (message_rows three_saves) = [2, 3]"
proof -
  let ?db = "save_messages ties_newest_first example_config empty_database
               [(1, example_message 7 USER 1), (2, example_message 7 ASSISTANT 2)]"
  have eq: "three_saves =
            snd (save_message ties_newest_first example_config 3 ?db (example_message 7 USER 3))"
    by (simp add: three_saves_def)
  have before: "length (filter (in_chat 7) (message_rows ?db)) = 2"
    by (simp add: database_eval_defs)
  have "length (filter (in_chat (chat_id (example_message 7 USER 3))) (message_rows three_saves)) =
        min (MESSAGE_HISTORY_LIMIT example_config)
          (length (filter (in_chat (chat_id (example_message 7 USER 3))) (message_rows ?db)) + 1)"
    by (rule save_message_retention [OF ties_newest_first_orders refl eq,
          THEN conjunct2, THEN conjunct1])
  then have "length (filter (in_chat 7) (message_rows three_saves)) = 2"
    using before by (simp add: example_message_def example_config_def)
  moreover have "map created_at (message_rows three_saves) = [2, 3]"
    by (simp add: database_eval_defs)
  ultimately show ?thesis using ties_newest_first_orders by simp
qed

lemma tied_saves_keep_newer_id:
  "map msg_id (message_rows tied_saves) = [Some 2]"
  by (simp add: database_eval_defs)

lemma insort_more_recent:
  assumes "sorted_wrt more_recent ys"
    and "\<forall>y \<in> set ys. row_id y < row_id x"
  shows "sorted_wrt more_recent (insort_key (\<lambda>m. - created_at m) x ys)"
  using assms
proof (induction ys)
  case Nil
  then show ?case by simp
next
  case (Cons y ys)
  show ?case
  proof (cases "created_at y \<le> created_at x")
    case True
    have "more_recent x z" if "z \<in> set (y # ys)" for z
    proof -
      have "created_at z \<le> created_at y"
        using that Cons.prems(1) by (auto simp: more_recent_def)
      moreover have "row_id z < row_id x" using that Cons.prems(2) by blast
      ultimately show ?thesis using True by (auto simp: more_recent_def)
    qed
    with True Cons.prems(1) show ?thesis by simp
  next
    case False
    then have "more_recent y x" by (simp add: more_recent_def)
    moreover have "sorted_wrt more_recent (insort_key (\<lambda>m. - created_at m) x ys)"
      using Cons.IH Cons.prems by simp
    ultimately show ?thesis
      using False Cons.prems(1) by (auto simp: set_insort_key)
  qed
qed

lemma sort_key_more_recent:
  "sorted_wrt (\<lambda>a b. row_id b < row_id a) xs \<Longrightarrow>
   sorted_wrt more_recent (sort_key (\<lambda>m. - created_at m) xs)"
proof (induction xs)
  case Nil
  then show ?case by simp
next
  case (Cons x xs)
  then show ?case by (simp add: insort_more_recent)
qed

lemma ties_newest_first_more_recent:
  assumes "sorted_wrt (\<lambda>a b. row_id a < row_id b) rs"
  shows "sorted_wrt more_recent (ties_newest_first rs)"
proof -
  have "sorted_wrt (\<lambda>a b. row_id b < row_id a) (rev rs)"
    using assms by (simp add: sorted_wrt_rev)
  then show ?thesis unfolding ties_newest_first_def by (rule sort_key_more_recent)
qed

lemma kept_rows_more_recent:
  assumes "distinct (map msg_id (message_rows db))"
    and "rows_in_id_order db"
    and "k \<in> set (message_rows (cleanup_old_messages ties_newest_first cfg db cid))"
    and "in_chat cid k"
    and "d \<in> set (message_rows db)" and "in_chat cid d"
    and "d \<notin> set (message_rows (cleanup_old_messages ties_newest_first cfg db cid))"
  shows "more_recent k d"
proof -
  let ?rows = "filter (in_chat cid) (message_rows db)"
  let ?o = "ties_newest_first ?rows"
  let ?H = "MESSAGE_HISTORY_LIMIT cfg"
  have first: "set (filter (in_chat cid)
                 (message_rows (cleanup_old_messages ties_newest_first cfg db cid))) =
               set (take ?H ?o)"
    using ties_newest_first_orders assms(1) by (rule kept_rows_are_first)
  have k: "k \<in> set (take ?H ?o)" using assms(3,4) first by auto
  have "mset ?o = mset ?rows"
    using ties_newest_first_orders by (simp add: orders_by_created_at_desc_def)
  then have "set ?o = set ?rows" by (rule mset_eq_setD)
  with assms(5,6) have "d \<in> set (take ?H ?o @ drop ?H ?o)" by simp
  then have "d \<in> set (take ?H ?o) \<union> set (drop ?H ?o)" by (simp only: set_append)
  moreover have "d \<notin> set (take ?H ?o)" using assms(6,7) first by auto
  ultimately have d: "d \<in> set (drop ?H ?o)" by blast
  have "sorted_wrt (\<lambda>a b. row_id a < row_id b) ?rows"
    using assms(2) by (simp add: rows_in_id_order_def sorted_wrt_filter)
  then have "sorted_wrt more_recent (take ?H ?o @ drop ?H ?o)"
    using ties_newest_first_more_recent by simp
  then have "\<forall>x \<in> set (take ?H ?o). \<forall>y \<in> set (drop ?H ?o). more_recent x y"
    unfolding sorted_wrt_append by blast
  with k d show ?thesis by blast
qed

lemma inserted_in_id_order:
  assumes "rows_well_formed db" and "rows_in_id_order db"
  shows "rows_in_id_order (inserted now db m)"
proof -
  have "row_id r < Suc (last_rowid db)" if "r \<in> set (message_rows db)" for r
    using assms(1) that by (fastforce simp: rows_well_formed_def row_id_def)
  with assms(2) show ?thesis
    by (simp add: rows_in_id_order_def inserted_rows sorted_wrt_append row_id_def)
qed

lemma save_message_in_id_order:
  assumes "rows_well_formed db" and "rows_in_id_order db"
  shows "rows_in_id_order (snd (save_message ord cfg now db m))"
proof -
  have "rows_in_id_order (inserted now db m)" using assms by (rule inserted_in_id_order)
  then show ?thesis
    by (simp add: save_message_inserted rows_in_id_order_def cleanup_old_messages_def Let_def
        sorted_wrt_filter)
qed

lemma save_messages_in_id_order:
  "rows_well_formed db \<Longrightarrow> rows_in_id_order db \<Longrightarrow>
   rows_in_id_order (save_messages ord cfg db writes)"
  by (induction writes arbitrary: db)
     (auto simp: save_message_in_id_order save_message_well_formed)

text \<open>
  On the program's index the trim breaks ties by insertion id: after any writes and one
  more, every message of the chat that is kept is more recent, by creation time and then
  by id, than every message of it that the write deleted.
\<close>

lemma save_message_keeps_most_recent_by_id:
  assumes "db = save_messages ties_newest_first cfg empty_database writes"
    and "db' = snd (save_message ties_newest_first cfg now db m)"
    and "k \<in> set (message_rows db')" and "in_chat (chat_id m) k"
    and "d \<in> set (message_rows db @ [m\<lparr>msg_id := Some (Suc (last_rowid db))\<rparr>])"
    and "in_chat (chat_id m) d" and "d \<notin> set (message_rows db')"
  shows "more_recent k d"
proof -
  have wf: "rows_well_formed db"
    unfolding assms(1) by (rule save_messages_well_formed)
  have "rows_in_id_order empty_database" "rows_well_formed empty_database"
    by (simp_all add: rows_in_id_order_def rows_well_formed_def empty_database_def)
  then have "rows_in_id_order db"
    unfolding assms(1) by (simp add: save_messages_in_id_order)
  with wf have ord: "rows_in_id_order (inserted now db m)" by (rule inserted_in_id_order)
  have "rows_well_formed (inserted now db m)" using wf by (rule inserted_well_formed)
  then have dist: "distinct (map msg_id (message_rows (inserted now db m)))"
    by (simp add: rows_well_formed_def)
  have db': "db' = cleanup_old_messages ties_newest_first cfg (inserted now db m) (chat_id m)"
    by (simp add: assms(2) save_message_inserted)
  show ?thesis
  proof (rule kept_rows_more_recent [OF dist ord])
    show "k \<in> set (message_rows
            (cleanup_old_messages ties_newest_first cfg (inserted now db m) (chat_id m)))"
      using assms(3) by (simp add: db')
    show "in_chat (chat_id m) k" by (rule assms(4))
    show "d \<in> set (message_rows (inserted now db m))"
      using assms(5) by (simp only: inserted_rows)
    show "in_chat (chat_id m) d" by (rule assms(6))
    show "d \<notin> set (message_rows
            (cleanup_old_messages ties_newest_first cfg (inserted now db m) (chat_id m)))"
      using assms(7) by (simp add: db')
  qed
qed

lemma ties_newest_first_simps:
  "ties_newest_first [] = []"
  "ties_newest_first [a] = [a]"
  by (simp_all add: ties_newest_first_def)

text \<open>
  C8: \<open>clear_chat_history\<close> returns the number of messages of the chat and
  deletes them all, leaving the other chats alone; the state that
  \<open>get_chat_state\<close> then returns has \<open>message_count\<close> 0 and the
  persona that \<open>get_chat_state\<close> returned before the clear; a state row that
  existed still exists, with its persona.
\<close>

theorem clear_chat_history_then_get_chat_state:
  "deleted = fst (clear_chat_history now1 db cid) \<Longrightarrow>
   db1 = snd (clear_chat_history now1 db cid) \<Longrightarrow>
   st = fst (get_chat_state now2 db1 cid) \<Longrightarrow>
     deleted = length (filter (in_chat cid) (message_rows db)) \<and>
     filter (in_chat cid) (message_rows db1) = [] \<and>
     filter (\<lambda>m. \<not> in_chat cid m) (message_rows db1) =
       filter (\<lambda>m. \<not> in_chat cid m) (message_rows db) \<and>
     message_count st = 0 \<and>
     current_persona st = current_persona (fst (get_chat_state now0 db cid)) \<and>
     (\<forall>row. chat_state_rows db cid = Some row \<longrightarrow>
        (\<exists>row'. chat_state_rows db1 cid = Some row' \<and>
                current_persona row' = current_persona row))"
  by (auto simp: clear_chat_history_def get_chat_state_def create_default_def Let_def
      save_chat_state_def split: option.splits)


section \<open>The properties on the example inputs\<close>

lemmas eval_defs =
  generate_response_def generate_response_body_def get_vector_context_def
  get_vector_context_body_def translate_query_def call_deepseek_translation_def
  extract_translation_def extract_response_def py_get_def py_index0_def py_strip_def
  truthy_def bind_exn_def strip_def isspace_def str_of_def CASUAL_CHAT_def
  search_similar_def search_similar_body_def broken_index_def example_env_def
  chat_reply_def build_context_for_ai_def Let_def ERROR_MESSAGE_def



theorem translate_query_fail_open_witness:
  "str_of ''hi'' \<noteq> [] \<and>
   snd (translate_query (\<lambda>_. Inl HTTPError) (str_of ''hi'') 0) \<noteq> 0 \<and>
   fst (call_deepseek_translation (\<lambda>_. Inl HTTPError) (str_of ''hi'') 0) = Inl HTTPError \<and>
   fst (translate_query (\<lambda>_. Inl HTTPError) (str_of ''hi'') 0) = Inr (Some (str_of ''hi''))"
  using translate_query_fail_open [of "str_of ''hi''" "\<lambda>_. Inl HTTPError" 0 HTTPError]
  by (simp add: eval_defs)

theorem translate_query_none_or_nonempty_witness:
  "fst (translate_query (\<lambda>_. Inr (chat_reply (str_of '' deposit limits '')))
          (str_of ''hi'') 0) = Inr (Some (str_of ''deposit limits''))"
  using translate_query_none_or_nonempty
    [of "\<lambda>_. Inr (chat_reply (str_of '' deposit limits ''))" "str_of ''hi''" 0]
  by (simp add: eval_defs)

lemma extract_translation_examples:
  "extract_translation (chat_reply (str_of ''  '')) = Inl ValueError"
  "extract_translation (JObj [(str_of ''choices'', JArr [])]) = Inl IndexError"
  "extract_translation (JArr []) = Inl AttributeError"
  "extract_translation (chat_reply (str_of '' how to register '')) = Inr (str_of ''how to register'')"
  by (simp_all add: eval_defs)

lemma extract_response_examples:
  "extract_response (chat_reply []) = Inl ValueError"
  "extract_response (JObj [(str_of ''choices'', JArr [JObj []])]) = Inl ValueError"
  "extract_response (JObj [(str_of ''choices'', JArr [])]) = Inl IndexError"
  "extract_response JNull = Inl AttributeError"
  "extract_response (chat_reply (str_of ''Welcome'')) = Inr (JStr (str_of ''Welcome''))"
  by (simp_all add: eval_defs)

theorem build_context_for_ai_structure_witness:
  "build_context_for_ai (file_prompt_service no_files) long_history BEN (str_of ''hi'')
     None None =
   Inr [\<lparr>api_role = str_of ''system'',
         api_content = get_system_prompt no_files BEN None None\<rparr>,
        \<lparr>api_role = str_of ''user'', api_content = str_of ''text''\<rparr>,
        \<lparr>api_role = str_of ''assistant'', api_content = str_of ''text''\<rparr>,
        \<lparr>api_role = str_of ''user'', api_content = str_of ''text''\<rparr>,
        \<lparr>api_role = str_of ''assistant'', api_content = str_of ''text''\<rparr>,
        \<lparr>api_role = str_of ''user'', api_content = str_of ''text''\<rparr>,
        \<lparr>api_role = str_of ''assistant'', api_content = str_of ''text''\<rparr>,
        \<lparr>api_role = str_of ''system'',
         api_content = get_system_prompt no_files BEN None None\<rparr>,
        \<lparr>api_role = str_of ''user'', api_content = str_of ''hi''\<rparr>]"
proof -
  have h: "map (\<lambda>m. \<lparr>api_role = (case role m of
                               USER \<Rightarrow> str_of ''user''
                             | ASSISTANT \<Rightarrow> str_of ''assistant''
                             | SYSTEM \<Rightarrow> str_of ''system''),
                 api_content = content m\<rparr>)
             (filter (\<lambda>m. role m \<noteq> SYSTEM) long_history) =
           [\<lparr>api_role = str_of ''user'', api_content = str_of ''text''\<rparr>,
            \<lparr>api_role = str_of ''assistant'', api_content = str_of ''text''\<rparr>,
            \<lparr>api_role = str_of ''user'', api_content = str_of ''text''\<rparr>,
            \<lparr>api_role = str_of ''assistant'', api_content = str_of ''text''\<rparr>,
            \<lparr>api_role = str_of ''user'', api_content = str_of ''text''\<rparr>,
            \<lparr>api_role = str_of ''assistant'', api_content = str_of ''text''\<rparr>]"
    by (simp add: long_history_def example_message_def)
  from build_context_for_ai_structure [of no_files long_history BEN "str_of ''hi''" None None]
  show ?thesis unfolding h by auto
qed

theorem clear_chat_history_then_get_chat_state_witness:
  "fst (clear_chat_history 5 bella_chat 7) = 2 \<and>
   message_count (fst (get_chat_state 6 (snd (clear_chat_history 5 bella_chat 7)) 7)) = 0 \<and>
   current_persona (fst (get_chat_state 6 (snd (clear_chat_history 5 bella_chat 7)) 7)) = BELLA \<and>
   (\<exists>row. chat_state_rows bella_chat 7 = Some row \<and> current_persona row = BELLA \<and>
          message_count row = 3)"
proof -
  have st: "chat_state_rows bella_chat 7 =
      Some \<lparr>state_chat_id = 7, current_persona = BELLA, message_count = 3, last_activity = 4\<rparr>"
    by (simp add: bella_chat_def update_chat_persona_def three_saves_def save_message_def
      update_message_count_def cleanup_old_messages_def empty_database_def example_config_def
      example_message_def in_chat_def ties_newest_first_def Let_def)
  have n: "length (filter (in_chat 7) (message_rows bella_chat)) = 2"
    by (simp add: bella_chat_def update_chat_persona_def three_saves_def save_message_def
      update_message_count_def cleanup_old_messages_def empty_database_def example_config_def
      example_message_def in_chat_def ties_newest_first_def Let_def)
  have before: "current_persona (fst (get_chat_state 0 bella_chat 7)) = BELLA"
    by (simp add: get_chat_state_def st)
  from clear_chat_history_then_get_chat_state [OF refl refl refl, of 5 bella_chat 7 6 0]
  show ?thesis by (simp add: n st before)
qed

end
